theory Spec2Isabelle
  imports Main
begin

section \<open>Data model of \<^verbatim>\<open>main.go\<close>\<close>

text \<open>
  Go \<^verbatim>\<open>error\<close> values are modelled by their message; \<^verbatim>\<open>nil\<close> is \<open>None\<close> of
  \<open>error option\<close>. \<^verbatim>\<open>errors.Wrap(err, msg)\<close> yields an error whose message is
  \<^verbatim>\<open>msg + ": " + err.Error()\<close>.
\<close>

type_synonym error = string

definition Wrap :: "error \<Rightarrow> string \<Rightarrow> error" where
  "Wrap err msg = msg @ '': '' @ err"

text \<open>\<^verbatim>\<open>type Issue struct { Key string; Fields struct { Summary string } }\<close>\<close>

record Fields =
  Summary :: string

record Issue =
  Key :: string
  Fields :: Fields

text \<open>
  A \<^verbatim>\<open>*systray.MenuItem\<close>: the title and tooltip given to \<^verbatim>\<open>systray.AddMenuItem\<close> and
  the check mark that \<^verbatim>\<open>Check\<close>/\<open>Uncheck\<close> set. Every item pointer is held by exactly
  one entry of \<^verbatim>\<open>issueItems\<close>, so the map holds the item itself.
\<close>

record MenuItem =
  title :: string
  tooltip :: string
  checked :: bool

text \<open>
  \<^verbatim>\<open>type JiraMenu struct { issueItems map[string]*systray.MenuItem; issueClickedCh chan string;
  selectedKey string; sync.RWMutex }\<close>. The channel and the lock carry no data.
\<close>

record JiraMenu =
  issueItems :: "string \<rightharpoonup> MenuItem"
  selectedKey :: string

text \<open>What a handler does to the outside: the calls it makes, in order.\<close>

datatype effect =
    Alert string                    \<comment> \<open>\<^verbatim>\<open>mack.Alert(text)\<close>\<close>
  | Dialog string string string     \<comment> \<open>\<^verbatim>\<open>mack.Dialog(text, title, defaultAnswer)\<close>\<close>
  | Exec "string list"              \<comment> \<open>\<^verbatim>\<open>exec.Command(name, args...)\<close> run to completion\<close>
  | LogPrint string                 \<comment> \<open>\<^verbatim>\<open>log.Print\<close>, \<^verbatim>\<open>log.Println\<close>\<close>
  | Println string                  \<comment> \<open>\<^verbatim>\<open>fmt.Println\<close>\<close>
  | AddMenuItem string string       \<comment> \<open>\<^verbatim>\<open>systray.AddMenuItem(title, tooltip)\<close>\<close>
  | SetTitle string                 \<comment> \<open>\<^verbatim>\<open>systray.SetTitle\<close>\<close>
  | SetTooltip string               \<comment> \<open>\<^verbatim>\<open>systray.SetTooltip\<close>\<close>
  | SetIcon                         \<comment> \<open>\<^verbatim>\<open>systray.SetIcon(icon)\<close>\<close>
  | AddSeparator                    \<comment> \<open>\<^verbatim>\<open>systray.AddSeparator\<close>\<close>

section \<open>The issue registry: \<^verbatim>\<open>isItemPresent\<close>, \<^verbatim>\<open>addItem\<close>, \<^verbatim>\<open>check\<close>\<close>

definition isItemPresent :: "JiraMenu \<Rightarrow> string \<Rightarrow> bool" where
  "isItemPresent menu key = (issueItems menu key \<noteq> None)"

definition newItem :: "Issue \<Rightarrow> MenuItem" where
  "newItem issue =
     \<lparr>title = Key issue @ '' - '' @ Summary (Fields issue),
      tooltip = Summary (Fields issue), checked = False\<rparr>"

definition addItem :: "JiraMenu \<Rightarrow> Issue \<Rightarrow> JiraMenu \<times> effect list" where
  "addItem menu issue =
     (if isItemPresent menu (Key issue) then (menu, [])
      else (menu\<lparr>issueItems := (issueItems menu)(Key issue \<mapsto> newItem issue)\<rparr>,
            [AddMenuItem (Key issue @ '' - '' @ Summary (Fields issue)) (Summary (Fields issue))]))"

text \<open>The loop \<^verbatim>\<open>for i := range issues { menu.addItem(&issues[i]) }\<close> of \<^verbatim>\<open>refresh\<close>.\<close>

fun addItems :: "JiraMenu \<Rightarrow> Issue list \<Rightarrow> JiraMenu \<times> effect list" where
  "addItems menu [] = (menu, [])"
| "addItems menu (issue # issues) =
     (let (menu1, es1) = addItem menu issue;
          (menu2, es2) = addItems menu1 issues
      in (menu2, es1 @ es2))"

text \<open>
  \<^verbatim>\<open>check\<close> clears the selection, unchecks every item, and only when the key is in the
  map checks that item and selects the key. It returns nothing.
\<close>

definition uncheckAll :: "(string \<rightharpoonup> MenuItem) \<Rightarrow> (string \<rightharpoonup> MenuItem)" where
  "uncheckAll items = (\<lambda>k. map_option (\<lambda>item. item\<lparr>checked := False\<rparr>) (items k))"

definition check :: "JiraMenu \<Rightarrow> string \<Rightarrow> JiraMenu" where
  "check menu key =
     (let items = uncheckAll (issueItems menu)
      in case items key of
           Some item \<Rightarrow> \<lparr>issueItems = items(key \<mapsto> item\<lparr>checked := True\<rparr>), selectedKey = key\<rparr>
         | None \<Rightarrow> \<lparr>issueItems = items, selectedKey = ''''\<rparr>)"

section \<open>Durations: \<^verbatim>\<open>time.Duration\<close>, \<^verbatim>\<open>Round\<close>, \<^verbatim>\<open>Minutes\<close>, \<^verbatim>\<open>strconv.Itoa\<close>\<close>

text \<open>
  A \<^verbatim>\<open>time.Duration\<close> is an \<^verbatim>\<open>int64\<close> count of nanoseconds; the model is an \<open>int\<close>
  with the wrap-around of 64-bit arithmetic written out where \<^verbatim>\<open>Round\<close> relies on it.
  A \<^verbatim>\<open>time.Time\<close> is its reading in nanoseconds.
\<close>

type_synonym Duration = int
type_synonym Time = int

definition Second :: Duration where "Second = 1000000000"
definition Minute :: Duration where "Minute = 60 * Second"
definition maxDuration :: Duration where "maxDuration = 2 ^ 63 - 1"
definition minDuration :: Duration where "minDuration = - (2 ^ 63)"

definition wrap64 :: "int \<Rightarrow> int" where
  "wrap64 x = (x + 2 ^ 63) mod 2 ^ 64 - 2 ^ 63"

definition uint64 :: "int \<Rightarrow> int" where
  "uint64 x = x mod 2 ^ 64"

text \<open>Go's \<^verbatim>\<open>/\<close> and \<^verbatim>\<open>%\<close> on integers truncate towards zero.\<close>

definition quo :: "int \<Rightarrow> int \<Rightarrow> int" where
  "quo a b = sgn a * sgn b * (\<bar>a\<bar> div \<bar>b\<bar>)"

definition rem :: "int \<Rightarrow> int \<Rightarrow> int" where
  "rem a b = a - b * quo a b"

definition lessThanHalf :: "Duration \<Rightarrow> Duration \<Rightarrow> bool" where
  "lessThanHalf x y = (uint64 (uint64 x + uint64 x) < uint64 y)"

text \<open>
  \<^verbatim>\<open>func (d Duration) Round(m Duration) Duration\<close> of package \<^verbatim>\<open>time\<close>: the nearest
  multiple of \<open>m\<close>, halfway values away from zero, saturating on overflow.
\<close>

definition Round :: "Duration \<Rightarrow> Duration \<Rightarrow> Duration" where
  "Round d m =
     (if m \<le> 0 then d
      else let r = rem d m in
        if d < 0 then
          (let r = - r in
           if lessThanHalf r m then wrap64 (d + r)
           else let d1 = wrap64 (d - m + r) in if d1 < d then d1 else minDuration)
        else if lessThanHalf r m then wrap64 (d - r)
        else let d1 = wrap64 (d + m - r) in if d1 > d then d1 else maxDuration)"

text \<open>
  \<^verbatim>\<open>int(d.Minutes())\<close>. \<^verbatim>\<open>Minutes\<close> returns \<^verbatim>\<open>float64(d / Minute) + float64(d % Minute) / 6e10\<close>
  and the conversion to \<^verbatim>\<open>int\<close> truncates. The program applies it to results of
  \<^verbatim>\<open>Round(time.Minute)\<close> only: there the remainder is zero, or the value is
  \<^verbatim>\<open>maxDuration\<close>/\<^verbatim>\<open>minDuration\<close> with a fraction near 0.28, and the quotient is below
  \<open>2 ^ 53\<close>, so the result is the truncated quotient.
\<close>

definition MinutesInt :: "Duration \<Rightarrow> int" where
  "MinutesInt d = quo d Minute"

text \<open>\<^verbatim>\<open>time.Since(t)\<close> at the instant \<open>now\<close>: the difference, saturating.\<close>

definition Since :: "Time \<Rightarrow> Time \<Rightarrow> Duration" where
  "Since now t = max minDuration (min maxDuration (now - t))"

text \<open>\<^verbatim>\<open>strconv.Itoa\<close>: the decimal digits, with a minus sign for a negative number.\<close>

definition digitChar :: "nat \<Rightarrow> char" where
  "digitChar n = ''0123456789'' ! n"

fun natDigits :: "nat \<Rightarrow> string" where
  "natDigits n = (if n < 10 then [digitChar n] else natDigits (n div 10) @ [digitChar (n mod 10)])"

declare natDigits.simps [simp del]

definition Itoa :: "int \<Rightarrow> string" where
  "Itoa i = (if i < 0 then CHR ''-'' # natDigits (nat (- i)) else natDigits (nat i))"

section \<open>The collaborators\<close>

text \<open>\<^verbatim>\<open>mack.Response\<close>: the button clicked and the text entered.\<close>

record Response =
  Clicked :: string
  GaveUp :: bool
  Text :: string

text \<open>
  Functions of Go's standard library that the program calls and whose definition the
  properties below do not depend on are parameters: \<^verbatim>\<open>Time.Format(jiraTimeFormat)\<close>,
  \<^verbatim>\<open>Duration.String\<close>, \<^verbatim>\<open>strings.TrimSpace\<close>, and \<^verbatim>\<open>json.Unmarshal\<close> into a
  \<^verbatim>\<open>ListOut\<close> and into an \<^verbatim>\<open>Issue\<close>. \<^verbatim>\<open>json.Unmarshal\<close> returns the target as far as it
  was filled together with the error: on a value of the wrong type it skips that field,
  goes on decoding, and reports the first such error at the end.
\<close>

record stdlib =
  formatTime :: "Time \<Rightarrow> string"
  durationString :: "Duration \<Rightarrow> string"
  TrimSpace :: "string \<Rightarrow> string"
  unmarshalList :: "string \<Rightarrow> Issue list \<times> error option"
  unmarshalIssue :: "string \<Rightarrow> Issue \<times> error option"

text \<open>
  What the outside answers while one action runs. Every action reads the clock, shows
  the dialog and runs each \<^verbatim>\<open>jira\<close> subcommand at most once.
\<close>

record world =
  username :: string                         \<comment> \<open>the flag \<^verbatim>\<open>*username\<close>\<close>
  now :: Time                                \<comment> \<open>\<^verbatim>\<open>time.Now()\<close>\<close>
  dialogResult :: "error + Response"         \<comment> \<open>\<^verbatim>\<open>mack.Dialog\<close>\<close>
  loginErr :: "error option"                 \<comment> \<open>\<^verbatim>\<open>jira login\<close>\<close>
  listResult :: "error + string"             \<comment> \<open>\<^verbatim>\<open>jira list\<close>, \<^verbatim>\<open>Output()\<close>\<close>
  viewResult :: "error + string"             \<comment> \<open>\<^verbatim>\<open>jira view\<close>, \<^verbatim>\<open>Output()\<close>\<close>
  worklogResult :: "string \<times> error option"   \<comment> \<open>\<^verbatim>\<open>jira worklog add\<close>, \<^verbatim>\<open>CombinedOutput()\<close>\<close>

definition loginCmd :: "world \<Rightarrow> string list" where
  "loginCmd w = [''jira'', ''login'', ''-u'', username w]"

definition listCmd :: "string list" where
  "listCmd = [''jira'', ''list'', ''--template'', ''debug'', ''--query'',
     ''resolution = unresolved and assignee=currentuser() ORDER BY priority asc, created'']"

definition viewCmd :: "string \<Rightarrow> string list" where
  "viewCmd key = [''jira'', ''view'', key, ''--template'', ''debug'']"

definition worklogCmd :: "string option \<Rightarrow> string \<Rightarrow> string \<Rightarrow> string \<Rightarrow> string list" where
  "worklogCmd message startTime durationTime key =
     [''jira'', ''worklog'', ''add'', ''--noedit'', ''--template'', ''debug''] @
     (case message of Some text \<Rightarrow> [''-m'', text] | None \<Rightarrow> []) @
     [''-S'', startTime, ''-T'', durationTime, key]"

section \<open>\<^verbatim>\<open>getIssues\<close>, \<^verbatim>\<open>refresh\<close>, \<^verbatim>\<open>NewJiraMenu\<close>\<close>

definition getIssues :: "stdlib \<Rightarrow> world \<Rightarrow> (Issue list \<times> error option) \<times> effect list" where
  "getIssues L w =
     (case loginErr w of
        Some err \<Rightarrow> (([], Some (Wrap err ''could not login'')), [Exec (loginCmd w)])
      | None \<Rightarrow>
          (case listResult w of
             Inl err \<Rightarrow> (([], Some (Wrap err ''could not list assigned issues'')),
                         [Exec (loginCmd w), Exec listCmd])
           | Inr out \<Rightarrow> (unmarshalList L out, [Exec (loginCmd w), Exec listCmd])))"

definition refresh :: "stdlib \<Rightarrow> world \<Rightarrow> JiraMenu \<Rightarrow> JiraMenu \<times> effect list" where
  "refresh L w menu =
     (let ((issues, err), es) = getIssues L w;
          logged = (case err of Some e \<Rightarrow> [LogPrint e] | None \<Rightarrow> []);
          (menu1, added) = addItems menu issues
      in (menu1, es @ logged @ added))"

definition emptyMenu :: JiraMenu where
  "emptyMenu = \<lparr>issueItems = Map.empty, selectedKey = ''''\<rparr>"

definition NewJiraMenu :: "stdlib \<Rightarrow> world \<Rightarrow> JiraMenu \<times> effect list" where
  "NewJiraMenu L w = refresh L w emptyMenu"

section \<open>The timer: \<^verbatim>\<open>Timer\<close>, \<^verbatim>\<open>addWorkLog\<close>, \<^verbatim>\<open>handleTimer\<close>\<close>

text \<open>
  \<^verbatim>\<open>type Timer struct { ticker *time.Ticker; startTime time.Time; done chan struct{} }\<close>.
  The ticker and its goroutine only redraw the tray title once a second; the data of a
  timer is its start time. The struct has no field for an issue key.
\<close>

record Timer =
  startTime :: Time

definition Timer_start :: "world \<Rightarrow> Timer \<Rightarrow> Timer" where
  "Timer_start w t = t\<lparr>startTime := now w\<rparr>"

definition Timer_stop :: "world \<Rightarrow> Timer \<Rightarrow> Duration \<times> effect list" where
  "Timer_stop w t = (Since (now w) (startTime t), [SetTitle ''''])"

text \<open>
  \<^verbatim>\<open>addWorkLog(key, started, d)\<close> returns an error or \<^verbatim>\<open>nil\<close>. The checks come in the
  order of the source: the dialog, its button, the login, the duration, the submit.
\<close>

definition addWorkLog ::
  "stdlib \<Rightarrow> world \<Rightarrow> string \<Rightarrow> Time \<Rightarrow> Duration \<Rightarrow> error option \<times> effect list" where
  "addWorkLog L w key started d =
     (let asked = [Dialog (''Worklog message for '' @ key @ '' #'' @ durationString L (Round d Second))
                     ''Worklog'' '' '']
      in case dialogResult w of
           Inl err \<Rightarrow> (Some (Wrap err ''could not ask for log messge''), asked)
         | Inr resp \<Rightarrow>
             (if Clicked resp \<noteq> ''OK'' then (None, asked)
              else
                (let es = asked @
                      [LogPrint (''Adding worklog for '' @ '' '' @ key @ '' '' @ '', message: '' @ '' '' @ Text resp),
                       Exec (loginCmd w)]
                 in case loginErr w of
                      Some err \<Rightarrow> (Some (Wrap err ''could not login!''), es)
                    | None \<Rightarrow>
                        (let startTime = formatTime L started;
                             durationTime = Itoa (MinutesInt (Round d Minute)) @ ''m''
                         in if durationTime = ''0m''
                            then (Some ''Cannot record a time log of < 1 minute'', es)
                            else
                              (let message = (if TrimSpace L (Text resp) \<noteq> '''' then Some (Text resp) else None);
                                   es2 = es @ [Exec (worklogCmd message startTime durationTime key)]
                               in (case worklogResult w of
                                     (out, Some err) \<Rightarrow>
                                       (Some (Wrap err (''could not add worklog: '' @ out)), es2)
                                   | (out, None) \<Rightarrow> (None, es2)))))))"

text \<open>
  The state of the program between two actions: the menu, and the locals of
  \<^verbatim>\<open>handleTimer\<close> (\<^verbatim>\<open>timerStarted\<close>, \<^verbatim>\<open>timer\<close>) with the title of the timer's menu item.
\<close>

record App =
  menu :: JiraMenu
  timerStarted :: bool
  timer :: Timer
  timerItemTitle :: string

text \<open>One iteration of \<^verbatim>\<open>for range timerItem.ClickedCh\<close> in \<^verbatim>\<open>handleTimer\<close>.\<close>

definition handleTimer :: "stdlib \<Rightarrow> world \<Rightarrow> App \<Rightarrow> App \<times> effect list" where
  "handleTimer L w app =
     (if timerStarted app then
        (let (d, es1) = Timer_stop w (timer app);
             (err, es2) = addWorkLog L w (selectedKey (menu app)) (startTime (timer app)) d;
             es3 = (case err of Some e \<Rightarrow> [Alert e] | None \<Rightarrow> [])
         in (app\<lparr>timerStarted := False, timerItemTitle := ''Start Timer''\<rparr>,
             es1 @ [Println (durationString L d)] @ es2 @ es3))
      else if selectedKey (menu app) = '''' then (app, [Alert ''No Issue Selected''])
      else (app\<lparr>timerItemTitle := ''Stop Timer'', timerStarted := True,
                 timer := Timer_start w (timer app)\<rparr>, []))"

section \<open>\<^verbatim>\<open>addIssue\<close>\<close>

definition addIssue :: "stdlib \<Rightarrow> world \<Rightarrow> JiraMenu \<Rightarrow> JiraMenu \<times> effect list" where
  "addIssue L w m =
     (let asked = [Dialog ''Issue Key?'' ''Issue Key'' ''MY-462'']
      in case dialogResult w of
           Inl err \<Rightarrow> (m, asked)
         | Inr resp \<Rightarrow>
             (if Clicked resp \<noteq> ''OK'' then (m, asked)
              else if isItemPresent m (Text resp) then (m, asked @ [Alert ''Issue already there!''])
              else
                (case loginErr w of
                   Some err \<Rightarrow> (m, asked @ [Exec (loginCmd w)])
                 | None \<Rightarrow>
                     (let es = asked @ [Exec (loginCmd w), Exec (viewCmd (Text resp))]
                      in (case viewResult w of
                            Inl err \<Rightarrow> (m, es @ [Alert ''Could not find that issue!''])
                          | Inr out \<Rightarrow>
                              (case unmarshalIssue L out of
                                 (issue, Some err) \<Rightarrow>
                                   (m, es @ [Alert ''Failed to read issue info.  Are you sure it exists?''])
                               | (issue, None) \<Rightarrow>
                                   (let (m1, added) = addItem m issue in (m1, es @ added))))))))"

section \<open>\<^verbatim>\<open>onReady\<close>: start-up and the handlers\<close>

text \<open>
  \<^verbatim>\<open>onReady\<close> builds the tray, constructs the menu with \<^verbatim>\<open>NewJiraMenu\<close>, and only then
  starts the handlers of the timer item, of the issue clicks, of "Add Issue" and of
  "Refresh Assigned". An action is one iteration of one of these handlers.
\<close>

datatype action = TimerClicked | IssueClicked string | AddIssueClicked | RefreshClicked

definition onReady :: "stdlib \<Rightarrow> world \<Rightarrow> App \<times> effect list" where
  "onReady L w =
     (let (m, es) = NewJiraMenu L w
      in (\<lparr>menu = m, timerStarted = False, timer = \<lparr>startTime = 0\<rparr>, timerItemTitle = ''Start Timer''\<rparr>,
          [SetIcon, SetTitle '''', SetTooltip ''Jira Time Tracker'',
           AddMenuItem ''Quit'' ''Quit the whole app'',
           AddMenuItem ''Start Timer'' ''Start Timer'',
           AddMenuItem ''Add Issue'' ''Add Issue'',
           AddMenuItem ''Refresh Assigned'' ''Refresh Assigned'',
           AddSeparator] @ es))"

fun step :: "stdlib \<Rightarrow> App \<Rightarrow> action \<times> world \<Rightarrow> App \<times> effect list" where
  "step L app (TimerClicked, w) = handleTimer L w app"
| "step L app (IssueClicked key, w) = (app\<lparr>menu := check (menu app) key\<rparr>, [Println key])"
| "step L app (AddIssueClicked, w) =
     (let (m, es) = addIssue L w (menu app) in (app\<lparr>menu := m\<rparr>, es))"
| "step L app (RefreshClicked, w) =
     (let (m, es) = refresh L w (menu app) in (app\<lparr>menu := m\<rparr>, es))"

text \<open>A run: the actions handled one after the other, with the effects in order.\<close>

fun run :: "stdlib \<Rightarrow> App \<Rightarrow> (action \<times> world) list \<Rightarrow> App \<times> effect list" where
  "run L app [] = (app, [])"
| "run L app (a # as) =
     (let (app1, es1) = step L app a;
          (app2, es2) = run L app1 as
      in (app2, es1 @ es2))"

text \<open>The work-log submissions among the effects: the \<^verbatim>\<open>jira worklog add\<close> commands.\<close>

fun isSubmit :: "effect \<Rightarrow> bool" where
  "isSubmit (Exec (a # b # c # args)) = (a = ''jira'' \<and> b = ''worklog'' \<and> c = ''add'')"
| "isSubmit _ = False"

fun isAlert :: "effect \<Rightarrow> bool" where
  "isAlert (Alert text) = True"
| "isAlert _ = False"

text \<open>The issue key of a submission: the last argument of the command.\<close>

fun submitKey :: "effect \<Rightarrow> string" where
  "submitKey (Exec args) = (if args = [] then '''' else last args)"
| "submitKey _ = ''''"

section \<open>The selection invariant\<close>

text \<open>
  The selection is the single string \<^verbatim>\<open>selectedKey\<close>, with \<^verbatim>\<open>""\<close> for "nothing selected".
  It is valid when it is empty or names a registered issue, and when no item other than
  the selected one carries a check mark.
\<close>

definition selectionValid :: "JiraMenu \<Rightarrow> bool" where
  "selectionValid m =
     ((selectedKey m = '''' \<or> isItemPresent m (selectedKey m)) \<and>
      (\<forall>k item. issueItems m k = Some item \<and> checked item \<longrightarrow> k = selectedKey m))"

section \<open>Scenarios\<close>

text \<open>
  Concrete inputs on which the properties below are exercised: stand-ins for the library
  parameters, a world in which every collaborator succeeds and the dialog is confirmed
  with an empty message, and a menu holding two issues.
\<close>

definition sampleLib :: stdlib where
  "sampleLib =
     \<lparr>formatTime = (\<lambda>t. Itoa t),
      durationString = (\<lambda>d. Itoa d @ ''ns''),
      TrimSpace = (\<lambda>s. rev (dropWhile (\<lambda>c. c = CHR '' '') (rev (dropWhile (\<lambda>c. c = CHR '' '') s)))),
      unmarshalList = (\<lambda>out. ([], None)),
      unmarshalIssue = (\<lambda>out. (\<lparr>Key = out, Fields = \<lparr>Summary = ''Fix bug''\<rparr>\<rparr>, None))\<rparr>"

definition calm :: "Time \<Rightarrow> world" where
  "calm t =
     \<lparr>username = ''dev'', now = t,
      dialogResult = Inr \<lparr>Clicked = ''OK'', GaveUp = False, Text = '' ''\<rparr>,
      loginErr = None, listResult = Inr ''{}'', viewResult = Inr ''PROJ-1'',
      worklogResult = ('''', None)\<rparr>"

definition issue :: "string \<Rightarrow> string \<Rightarrow> Issue" where
  "issue key summary = \<lparr>Key = key, Fields = \<lparr>Summary = summary\<rparr>\<rparr>"

definition twoIssues :: JiraMenu where
  "twoIssues = fst (addItems emptyMenu [issue ''A-1'' ''first'', issue ''B-2'' ''second''])"

definition idle :: "JiraMenu \<Rightarrow> App" where
  "idle m = \<lparr>menu = m, timerStarted = False, timer = \<lparr>startTime = 0\<rparr>, timerItemTitle = ''Start Timer''\<rparr>"

definition running :: "JiraMenu \<Rightarrow> Time \<Rightarrow> App" where
  "running m t = \<lparr>menu = m, timerStarted = True, timer = \<lparr>startTime = t\<rparr>, timerItemTitle = ''Stop Timer''\<rparr>"

definition cancelled :: "Time \<Rightarrow> world" where
  "cancelled t = (calm t)\<lparr>dialogResult := Inr \<lparr>Clicked = ''Cancel'', GaveUp = False, Text = ''''\<rparr>\<rparr>"

text \<open>
  Worlds in which one collaborator fails, and a listing whose summary is a number
  together with what \<^verbatim>\<open>json.Unmarshal\<close> makes of it.
\<close>

definition loginFails :: "Time \<Rightarrow> world" where
  "loginFails t = (calm t)\<lparr>loginErr := Some ''exit status 1''\<rparr>"

definition listFails :: "Time \<Rightarrow> world" where
  "listFails t = (calm t)\<lparr>listResult := Inl ''exit status 1''\<rparr>"

definition quoted :: "string \<Rightarrow> string" where
  "quoted s = CHR 0x22 # s @ [CHR 0x22]"

definition summaryIsNumber :: string where
  "summaryIsNumber =
     ''{'' @ quoted ''issues'' @ '':[{'' @ quoted ''key'' @ '':'' @ quoted ''A-1'' @ '','' @
     quoted ''fields'' @ '':{'' @ quoted ''summary'' @ '':5}}]}''"

definition typeErrorLib :: stdlib where
  "typeErrorLib = sampleLib\<lparr>unmarshalList :=
     (\<lambda>out. if out = summaryIsNumber
        then ([issue ''A-1'' ''''],
              Some ''json: cannot unmarshal number into Go struct field .issues.fields.summary of type string'')
        else ([], None))\<rparr>"

definition listsBadSummary :: "Time \<Rightarrow> world" where
  "listsBadSummary t = (calm t)\<lparr>listResult := Inr summaryIsNumber\<rparr>"

definition submitFails :: "Time \<Rightarrow> world" where
  "submitFails t = (calm t)\<lparr>worklogResult := (''404 Not Found'', Some ''exit status 1'')\<rparr>"

definition viewFails :: "Time \<Rightarrow> world" where
  "viewFails t = (calm t)\<lparr>dialogResult := Inr \<lparr>Clicked = ''OK'', GaveUp = False, Text = ''PROJ-9''\<rparr>,
                           viewResult := Inl ''exit status 1''\<rparr>"

section \<open>Properties\<close>

subsection \<open>Decimal digits\<close>

lemma natDigits_nonempty: "natDigits n \<noteq> []"
  by (subst natDigits.simps) simp

lemma natDigits_zero: "natDigits n = ''0'' \<longleftrightarrow> n = 0"
proof
  assume h: "natDigits n = ''0''"
  show "n = 0"
  proof (cases "n < 10")
    case True
    then have "n \<in> {0, 1, 2, 3, 4, 5, 6, 7, 8, 9}" by auto
    with h show ?thesis by (auto simp: natDigits.simps digitChar_def)
  next
    case False
    then have "natDigits n = natDigits (n div 10) @ [digitChar (n mod 10)]"
      by (subst natDigits.simps) simp
    with h have "natDigits (n div 10) = []" by simp
    then show ?thesis using natDigits_nonempty by blast
  qed
next
  assume "n = 0"
  then show "natDigits n = ''0''" by (simp add: natDigits.simps digitChar_def)
qed

lemma Itoa_zero: "Itoa i @ ''m'' = ''0m'' \<longleftrightarrow> i = 0"
  by (auto simp: Itoa_def natDigits_zero)

subsection \<open>The scenarios evaluated\<close>

lemma twoIssues_select_A1: "selectedKey (check twoIssues ''A-1'') = ''A-1''"
  by (simp add: check_def twoIssues_def addItem_def isItemPresent_def emptyMenu_def issue_def
      uncheckAll_def newItem_def)

lemma twoIssues_items:
  "issueItems twoIssues =
     [''A-1'' \<mapsto> newItem (issue ''A-1'' ''first''), ''B-2'' \<mapsto> newItem (issue ''B-2'' ''second'')]"
  by (simp add: twoIssues_def addItem_def isItemPresent_def emptyMenu_def issue_def)

subsection \<open>The timer toggle\<close>

text \<open>
  C4. A click on the timer item while no session runs and no issue is selected changes
  nothing: the session stays idle, the registry and the selection are what they were,
  and the user is told "No Issue Selected".
\<close>

theorem toggle_idle_without_selection:
  "\<not> timerStarted app \<Longrightarrow> selectedKey (menu app) = '''' \<Longrightarrow>
   step L app (TimerClicked, w) = (app, [Alert ''No Issue Selected''])"
  by (simp add: handleTimer_def)

theorem toggle_idle_without_selection_witness:
  "\<not> timerStarted (idle twoIssues) \<and> selectedKey (menu (idle twoIssues)) = '''' \<and>
   step sampleLib (idle twoIssues) (TimerClicked, calm 0) = (idle twoIssues, [Alert ''No Issue Selected''])"
proof -
  have a: "\<not> timerStarted (idle twoIssues)" by (simp add: idle_def)
  have b: "selectedKey (menu (idle twoIssues)) = ''''"
    by (simp add: idle_def twoIssues_def addItem_def isItemPresent_def emptyMenu_def issue_def)
  from toggle_idle_without_selection [OF a b, of sampleLib "calm 0"] a b show ?thesis by simp
qed

text \<open>
  C9. When the work-log dialog is closed with a button other than OK, \<^verbatim>\<open>addWorkLog\<close>
  returns \<^verbatim>\<open>nil\<close> after the dialog alone: no login, no submission, no error. The timer
  click that stopped the session then shows no alert and leaves the session idle: the
  elapsed time is dropped.
\<close>

theorem dismissed_dialog_discards_session:
  assumes "dialogResult w = Inr resp" and "Clicked resp \<noteq> ''OK''"
  shows "addWorkLog L w key started d =
           (None, [Dialog (''Worklog message for '' @ key @ '' #'' @ durationString L (Round d Second))
                     ''Worklog'' '' ''])
         \<and> (timerStarted app \<longrightarrow>
              step L app (TimerClicked, w) =
                (app\<lparr>timerStarted := False, timerItemTitle := ''Start Timer''\<rparr>,
                 [SetTitle '''',
                  Println (durationString L (Since (now w) (startTime (timer app)))),
                  Dialog (''Worklog message for '' @ selectedKey (menu app) @ '' #'' @
                            durationString L (Round (Since (now w) (startTime (timer app))) Second))
                    ''Worklog'' '' '']))"
  using assms by (simp add: addWorkLog_def handleTimer_def Timer_stop_def)

theorem dismissed_dialog_discards_session_witness:
  "dialogResult (cancelled (300 * Second)) = Inr \<lparr>Clicked = ''Cancel'', GaveUp = False, Text = ''''\<rparr> \<and>
   Clicked \<lparr>Clicked = ''Cancel'', GaveUp = False, Text = ''''\<rparr> \<noteq> ''OK'' \<and>
   timerStarted (running (check twoIssues ''A-1'') 0) \<and>
   fst (addWorkLog sampleLib (cancelled (300 * Second)) ''A-1'' 0 (300 * Second)) = None \<and>
   snd (step sampleLib (running (check twoIssues ''A-1'') 0) (TimerClicked, cancelled (300 * Second))) =
     [SetTitle '''', Println ''300000000000ns'',
      Dialog ''Worklog message for A-1 #300000000000ns'' ''Worklog'' '' '']"
proof -
  let ?resp = "\<lparr>Clicked = ''Cancel'', GaveUp = False, Text = ''''\<rparr>"
  have a: "dialogResult (cancelled (300 * Second)) = Inr ?resp"
    by (simp add: cancelled_def calm_def)
  have b: "Clicked ?resp \<noteq> ''OK''" by simp
  have c: "timerStarted (running (check twoIssues ''A-1'') 0)" by (simp add: running_def)
  have r: "Round (300 * Second) Second = 300 * Second"
    by (simp add: Round_def Second_def rem_def quo_def lessThanHalf_def uint64_def wrap64_def)
  have s: "Since (300 * Second) 0 = 300 * Second"
    by (simp add: Since_def Second_def minDuration_def maxDuration_def)
  have i: "Itoa (300 * Second) = ''300000000000''"
    by (simp add: Itoa_def Second_def natDigits.simps digitChar_def)
  have n: "now (cancelled (300 * Second)) = 300 * Second" by (simp add: cancelled_def calm_def)
  have d: "durationString sampleLib = (\<lambda>d. Itoa d @ ''ns'')" by (simp add: sampleLib_def)
  from dismissed_dialog_discards_session [OF a b, of sampleLib "''A-1''" 0 "300 * Second"
      "running (check twoIssues ''A-1'') 0"] a b c
  show ?thesis
    by (simp add: r s i n d twoIssues_select_A1) (simp add: running_def r s i twoIssues_select_A1)
qed

subsection \<open>The registry\<close>

lemma addItem_present: "isItemPresent m (Key i) \<Longrightarrow> addItem m i = (m, [])"
  by (simp add: addItem_def)

lemma addItem_lookup:
  "issueItems (fst (addItem m i)) k =
     (case issueItems m k of Some item \<Rightarrow> Some item
      | None \<Rightarrow> if Key i = k then Some (newItem i) else None)"
  by (auto simp: addItem_def isItemPresent_def split: option.splits)

lemma addItem_selectedKey: "selectedKey (fst (addItem m i)) = selectedKey m"
  by (simp add: addItem_def)

lemma addItems_lookup:
  "issueItems (fst (addItems m is)) k =
     (case issueItems m k of Some item \<Rightarrow> Some item
      | None \<Rightarrow> map_option newItem (find (\<lambda>i. Key i = k) is))"
proof (induction "is" arbitrary: m)
  case Nil
  then show ?case by (simp split: option.splits)
next
  case (Cons i "is")
  have "issueItems (fst (addItems m (i # is))) k = issueItems (fst (addItems (fst (addItem m i)) is)) k"
    by (simp add: split_def Let_def)
  also have "\<dots> = (case issueItems (fst (addItem m i)) k of Some item \<Rightarrow> Some item
                    | None \<Rightarrow> map_option newItem (find (\<lambda>i. Key i = k) is))"
    by (rule Cons.IH)
  finally show ?case
    by (simp add: addItem_lookup split: option.splits)
qed

lemma addItems_selectedKey: "selectedKey (fst (addItems m is)) = selectedKey m"
  by (induction "is" arbitrary: m) (simp_all add: split_def Let_def addItem_selectedKey)

lemma find_Key_None: "find (\<lambda>i. Key i = k) is = None \<longleftrightarrow> k \<notin> Key ` set is"
  by (auto simp: find_None_iff)

lemma addItems_dom:
  "dom (issueItems (fst (addItems m is))) = dom (issueItems m) \<union> set (map Key is)"
proof (rule set_eqI)
  fix k
  show "k \<in> dom (issueItems (fst (addItems m is))) \<longleftrightarrow> k \<in> dom (issueItems m) \<union> set (map Key is)"
  proof (cases "issueItems m k")
    case None
    then have "k \<in> dom (issueItems (fst (addItems m is))) \<longleftrightarrow> find (\<lambda>i. Key i = k) is \<noteq> None"
      by (simp add: dom_def addItems_lookup)
    with None show ?thesis by (simp add: find_Key_None dom_def)
  next
    case (Some item)
    then show ?thesis by (simp add: dom_def addItems_lookup)
  qed
qed

text \<open>
  C5. \<^verbatim>\<open>addItem\<close> on a key that is present returns the menu as it was and adds no menu
  item. Whatever issues are added afterwards, an entry that is there stays what it is.
  Starting from the empty registry, the entry of a key is the item made from the first
  issue of the sequence with that key, and the registry has as many entries as the
  sequence has distinct keys.
\<close>

theorem addItem_first_write_wins:
  "(isItemPresent m (Key i) \<longrightarrow> addItem m i = (m, [])) \<and>
   (issueItems m k = Some item \<longrightarrow> issueItems (fst (addItems m is)) k = Some item) \<and>
   issueItems (fst (addItems emptyMenu is)) k = map_option newItem (find (\<lambda>i. Key i = k) is) \<and>
   card (dom (issueItems (fst (addItems emptyMenu is)))) = card (set (map Key is))"
  by (simp add: addItem_present addItems_lookup addItems_dom emptyMenu_def)

theorem addItem_first_write_wins_witness:
  "isItemPresent twoIssues (Key (issue ''A-1'' ''renamed'')) \<and>
   addItem twoIssues (issue ''A-1'' ''renamed'') = (twoIssues, []) \<and>
   issueItems (fst (addItems emptyMenu [issue ''A-1'' ''first'', issue ''B-2'' ''second'', issue ''A-1'' ''renamed'']))
     ''A-1'' = Some (newItem (issue ''A-1'' ''first'')) \<and>
   card (dom (issueItems (fst (addItems emptyMenu
     [issue ''A-1'' ''first'', issue ''B-2'' ''second'', issue ''A-1'' ''renamed''])))) = 2"
proof -
  have p: "isItemPresent twoIssues (Key (issue ''A-1'' ''renamed''))"
    by (simp add: isItemPresent_def twoIssues_items issue_def)
  have c: "card (set (map Key [issue ''A-1'' ''first'', issue ''B-2'' ''second'', issue ''A-1'' ''renamed''])) = 2"
    by (simp add: issue_def card_insert_if)
  from addItem_first_write_wins [of twoIssues "issue ''A-1'' ''renamed''" "''A-1''"
      "newItem (issue ''A-1'' ''first'')"
      "[issue ''A-1'' ''first'', issue ''B-2'' ''second'', issue ''A-1'' ''renamed'']"] p c
  show ?thesis by (simp add: issue_def)
qed

subsection \<open>The selection\<close>

lemma check_absent:
  "\<not> isItemPresent m key \<Longrightarrow> check m key = \<lparr>issueItems = uncheckAll (issueItems m), selectedKey = ''''\<rparr>"
  by (simp add: check_def isItemPresent_def uncheckAll_def)

text \<open>
  C6, as the code has it. \<^verbatim>\<open>check\<close> has no result and reports nothing. A click on a key
  that is not registered prints the key, unchecks every item and clears the selection;
  the registry keeps its keys, and the selection is left empty.
\<close>

theorem check_unknown_clears_selection:
  assumes "\<not> isItemPresent (menu app) key"
  shows "step L app (IssueClicked key, w) =
           (app\<lparr>menu := \<lparr>issueItems = uncheckAll (issueItems (menu app)), selectedKey = ''''\<rparr>\<rparr>, [Println key])
         \<and> selectedKey (check (menu app) key) = ''''
         \<and> (\<forall>k. isItemPresent (check (menu app) key) k = isItemPresent (menu app) k)
         \<and> (\<forall>k item. issueItems (check (menu app) key) k = Some item \<longrightarrow> \<not> checked item)"
  using assms by (auto simp: check_absent isItemPresent_def uncheckAll_def)

theorem check_unknown_clears_selection_witness:
  "\<not> isItemPresent (menu (idle (check twoIssues ''A-1''))) ''C-3'' \<and>
   selectedKey (check (menu (idle (check twoIssues ''A-1''))) ''C-3'') = ''''"
proof -
  have a: "\<not> isItemPresent (menu (idle (check twoIssues ''A-1''))) ''C-3''"
    by (simp add: idle_def check_def twoIssues_items uncheckAll_def isItemPresent_def)
  from check_unknown_clears_selection [OF a] a show ?thesis by simp
qed

text \<open>
  With A-1 selected, a click on the unregistered key C-3 completes with the key printed
  and nothing else: no alert, no log entry, no error value. The selection A-1 is gone.
\<close>

theorem check_unknown_counterexample:
  "\<not> isItemPresent (check twoIssues ''A-1'') ''C-3'' \<and>
   selectedKey (check twoIssues ''A-1'') = ''A-1'' \<and>
   snd (step sampleLib (idle (check twoIssues ''A-1'')) (IssueClicked ''C-3'', calm 0)) = [Println ''C-3''] \<and>
   selectedKey (menu (fst (step sampleLib (idle (check twoIssues ''A-1'')) (IssueClicked ''C-3'', calm 0)))) = ''''"
  by (simp add: idle_def check_def twoIssues_items uncheckAll_def isItemPresent_def)

lemma check_selectionValid: "selectionValid (check m key)"
  by (auto simp: selectionValid_def check_def uncheckAll_def isItemPresent_def Let_def
      split: option.splits if_splits)

lemma check_sets_present:
  "selectedKey (check m key) \<noteq> '''' \<Longrightarrow> selectedKey (check m key) = key \<and> isItemPresent m key"
  by (auto simp: check_def uncheckAll_def isItemPresent_def Let_def split: option.splits)

lemma newItem_unchecked: "\<not> checked (newItem i)"
  by (simp add: newItem_def)

lemma addItem_selectionValid: "selectionValid m \<Longrightarrow> selectionValid (fst (addItem m i))"
  unfolding selectionValid_def isItemPresent_def
  by (auto simp: addItem_lookup addItem_selectedKey newItem_unchecked split: option.splits if_splits)

lemma addItems_selectionValid: "selectionValid m \<Longrightarrow> selectionValid (fst (addItems m is))"
  by (induction "is" arbitrary: m) (simp_all add: split_def Let_def addItem_selectionValid)

lemma refresh_menu: "fst (refresh L w m) = fst (addItems m (fst (fst (getIssues L w))))"
  by (simp add: refresh_def split_def Let_def)

lemma refresh_selectionValid: "selectionValid m \<Longrightarrow> selectionValid (fst (refresh L w m))"
  by (simp add: refresh_menu addItems_selectionValid)

lemma addIssue_menu:
  "fst (addIssue L w m) = m \<or> (\<exists>i. fst (addIssue L w m) = fst (addItem m i))"
  by (auto simp: addIssue_def Let_def split_def split: sum.splits option.splits prod.splits)

lemma addIssue_selectionValid: "selectionValid m \<Longrightarrow> selectionValid (fst (addIssue L w m))"
  using addIssue_menu [of L w m] by (auto simp: addItem_selectionValid)

lemma handleTimer_menu: "menu (fst (handleTimer L w app)) = menu app"
  by (simp add: handleTimer_def split_def Let_def)

lemma step_selectionValid:
  "selectionValid (menu app) \<Longrightarrow> selectionValid (menu (fst (step L app a)))"
proof (cases a)
  case (Pair act w)
  assume v: "selectionValid (menu app)"
  show ?thesis
  proof (cases act)
    case TimerClicked
    with Pair v show ?thesis by (simp add: handleTimer_menu)
  next
    case (IssueClicked key)
    with Pair show ?thesis by (simp add: check_selectionValid)
  next
    case AddIssueClicked
    with Pair v show ?thesis by (simp add: split_def Let_def addIssue_selectionValid)
  next
    case RefreshClicked
    with Pair v show ?thesis by (simp add: split_def Let_def refresh_selectionValid)
  qed
qed

lemma run_selectionValid:
  "selectionValid (menu app) \<Longrightarrow> selectionValid (menu (fst (run L app as)))"
proof (induction as arbitrary: app)
  case Nil
  then show ?case by simp
next
  case (Cons a as)
  from Cons.prems have "selectionValid (menu (fst (step L app a)))" by (rule step_selectionValid)
  then have "selectionValid (menu (fst (run L (fst (step L app a)) as)))" by (rule Cons.IH)
  then show ?case by (simp add: split_def Let_def)
qed

lemma emptyMenu_selectionValid: "selectionValid emptyMenu"
  by (simp add: selectionValid_def emptyMenu_def)

lemma onReady_menu: "menu (fst (onReady L w)) = fst (NewJiraMenu L w)"
  by (simp add: onReady_def split_def Let_def)

lemma onReady_selectionValid: "selectionValid (menu (fst (onReady L w)))"
  by (simp add: onReady_menu NewJiraMenu_def refresh_selectionValid emptyMenu_selectionValid)

text \<open>
  C7. The selection is one string, so it never holds two ids. It is valid after
  \<^verbatim>\<open>onReady\<close>, every action keeps it valid, and so it is valid after every run of
  actions. When \<^verbatim>\<open>check\<close> leaves a non-empty selection, that selection is the key it was
  called with, and the key was registered in the menu \<^verbatim>\<open>check\<close> was called on.
\<close>

theorem selection_invariant:
  "selectionValid (menu (fst (onReady L w0))) \<and>
   (selectionValid (menu app) \<longrightarrow> selectionValid (menu (fst (step L app a)))) \<and>
   selectionValid (menu (fst (run L (fst (onReady L w0)) as))) \<and>
   (selectedKey (check m key) \<noteq> '''' \<longrightarrow> selectedKey (check m key) = key \<and> isItemPresent m key)"
  using check_sets_present [of m key]
  by (simp add: onReady_selectionValid step_selectionValid run_selectionValid)

lemma idle_twoIssues_valid: "selectionValid (menu (idle twoIssues))"
  by (auto simp: selectionValid_def idle_def twoIssues_def addItem_def isItemPresent_def emptyMenu_def
      issue_def newItem_def split: if_splits)

theorem selection_invariant_witness:
  "selectionValid (menu (idle twoIssues)) \<and>
   selectionValid (menu (fst (step sampleLib (idle twoIssues) (IssueClicked ''A-1'', calm 0)))) \<and>
   selectionValid (menu (fst (run sampleLib (fst (onReady sampleLib (calm 0)))
      [(AddIssueClicked, calm 1), (IssueClicked ''PROJ-1'', calm 2)]))) \<and>
   selectedKey (check twoIssues ''A-1'') \<noteq> '''' \<and>
   selectedKey (check twoIssues ''A-1'') = ''A-1'' \<and> isItemPresent twoIssues ''A-1''"
proof -
  have s: "selectedKey (check twoIssues ''A-1'') \<noteq> ''''" by (simp add: twoIssues_select_A1)
  from selection_invariant [of sampleLib "calm 0" "idle twoIssues" "(IssueClicked ''A-1'', calm 0)"
      "[(AddIssueClicked, calm 1), (IssueClicked ''PROJ-1'', calm 2)]" twoIssues "''A-1''"]
    idle_twoIssues_valid s
  show ?thesis by simp
qed

subsection \<open>Rounding and the work log\<close>

lemma Minute_value: "Minute = 60000000000"
  by (simp add: Minute_def Second_def)




lemma not_submit_login: "\<not> isSubmit (Exec (loginCmd w))"
  by (simp add: loginCmd_def)



lemma addWorkLog_zero_error:
  "MinutesInt (Round d Minute) = 0 \<Longrightarrow> dialogResult w = Inr resp \<Longrightarrow> Clicked resp = ''OK'' \<Longrightarrow>
   loginErr w = None \<Longrightarrow>
   fst (addWorkLog L w key started d) = Some ''Cannot record a time log of < 1 minute''"
  by (simp add: addWorkLog_def Itoa_zero Let_def)


lemma handleTimer_running:
  "timerStarted app \<Longrightarrow>
   handleTimer L w app =
     (app\<lparr>timerStarted := False, timerItemTitle := ''Start Timer''\<rparr>,
      SetTitle '''' # Println (durationString L (Since (now w) (startTime (timer app)))) #
      snd (addWorkLog L w (selectedKey (menu app)) (startTime (timer app)) (Since (now w) (startTime (timer app)))) @
      (case fst (addWorkLog L w (selectedKey (menu app)) (startTime (timer app))
                   (Since (now w) (startTime (timer app)))) of
         Some e \<Rightarrow> [Alert e] | None \<Rightarrow> []))"
  by (simp add: handleTimer_def Timer_stop_def split_def Let_def)






lemma Itoa_0: "Itoa 0 = ''0''"
  by (simp add: Itoa_def natDigits.simps digitChar_def)




subsection \<open>Sessions\<close>

lemma run_Cons:
  "run L app (a # as) =
     (fst (run L (fst (step L app a)) as), snd (step L app a) @ snd (run L (fst (step L app a)) as))"
  by (simp add: split_def Let_def)

lemma run_append:
  "run L app (xs @ ys) =
     (fst (run L (fst (run L app xs)) ys), snd (run L app xs) @ snd (run L (fst (run L app xs)) ys))"
  by (induction xs arbitrary: app) (simp_all add: split_def Let_def)

lemma addItem_no_submit: "\<not> list_ex isSubmit (snd (addItem m i))"
  by (simp add: addItem_def)

lemma addItems_no_submit: "\<not> list_ex isSubmit (snd (addItems m is))"
  by (induction "is" arbitrary: m) (simp_all add: split_def Let_def addItem_no_submit)

lemma not_submit_view: "\<not> isSubmit (Exec (viewCmd key))"
  by (simp add: viewCmd_def)

lemma not_submit_list: "\<not> isSubmit (Exec listCmd)"
  by (simp add: listCmd_def)

lemma getIssues_no_submit: "\<not> list_ex isSubmit (snd (getIssues L w))"
  by (simp add: getIssues_def not_submit_login not_submit_list split: option.splits sum.splits)

lemma refresh_no_submit: "\<not> list_ex isSubmit (snd (refresh L w m))"
  by (simp add: refresh_def split_def Let_def getIssues_no_submit addItems_no_submit split: option.splits)

lemma addIssue_no_submit: "\<not> list_ex isSubmit (snd (addIssue L w m))"
  by (simp add: addIssue_def Let_def split_def not_submit_login not_submit_view addItem_no_submit
      split: sum.splits option.splits prod.splits)

lemma step_other_no_submit:
  "fst a \<noteq> TimerClicked \<Longrightarrow> \<not> list_ex isSubmit (snd (step L app a))"
  by (cases a; cases "fst a")
     (simp_all add: split_def Let_def refresh_no_submit addIssue_no_submit)

lemma step_other_timer:
  "fst a \<noteq> TimerClicked \<Longrightarrow>
   timerStarted (fst (step L app a)) = timerStarted app \<and> timer (fst (step L app a)) = timer app"
  by (cases a; cases "fst a") (simp_all add: split_def Let_def)

lemma run_other_no_submit:
  "\<forall>a \<in> set as. fst a \<noteq> TimerClicked \<Longrightarrow> \<not> list_ex isSubmit (snd (run L app as))"
  by (induction as arbitrary: app) (simp_all add: split_def Let_def step_other_no_submit)

lemma run_other_timer:
  "\<forall>a \<in> set as. fst a \<noteq> TimerClicked \<Longrightarrow>
   timerStarted (fst (run L app as)) = timerStarted app \<and> timer (fst (run L app as)) = timer app"
  by (induction as arbitrary: app) (simp_all add: split_def Let_def step_other_timer)

lemma addIssue_selectedKey: "selectedKey (fst (addIssue L w m)) = selectedKey m"
  using addIssue_menu [of L w m] by (auto simp: addItem_selectedKey)

lemma refresh_selectedKey: "selectedKey (fst (refresh L w m)) = selectedKey m"
  by (simp add: refresh_menu addItems_selectedKey)

lemma step_no_click_selectedKey:
  "\<forall>k. fst a \<noteq> IssueClicked k \<Longrightarrow> selectedKey (menu (fst (step L app a))) = selectedKey (menu app)"
  by (cases a; cases "fst a")
     (simp_all add: split_def Let_def handleTimer_menu addIssue_selectedKey refresh_selectedKey)

lemma run_no_click_selectedKey:
  "\<forall>a \<in> set as. \<forall>k. fst a \<noteq> IssueClicked k \<Longrightarrow>
   selectedKey (menu (fst (run L app as))) = selectedKey (menu app)"
  by (induction as arbitrary: app) (simp_all add: split_def Let_def step_no_click_selectedKey)

lemma handleTimer_start:
  "\<not> timerStarted app \<Longrightarrow> selectedKey (menu app) \<noteq> '''' \<Longrightarrow>
   handleTimer L w app =
     (app\<lparr>timerItemTitle := ''Stop Timer'', timerStarted := True, timer := \<lparr>startTime = now w\<rparr>\<rparr>, [])"
  by (simp add: handleTimer_def Timer_start_def)

lemma addWorkLog_submitKey:
  "e \<in> set (snd (addWorkLog L w key started d)) \<Longrightarrow> isSubmit e \<Longrightarrow> submitKey e = key"
  by (auto simp: addWorkLog_def Let_def not_submit_login worklogCmd_def
      split: sum.splits option.splits if_splits prod.splits)

lemma handleTimer_stop_submitKey:
  "timerStarted app \<Longrightarrow> e \<in> set (snd (handleTimer L w app)) \<Longrightarrow> isSubmit e \<Longrightarrow>
   submitKey e = selectedKey (menu app)"
  by (auto simp: handleTimer_running dest: addWorkLog_submitKey split: option.splits)

lemma start_A1:
  "handleTimer sampleLib (calm 0) (idle (check twoIssues ''A-1'')) = (running (check twoIssues ''A-1'') 0, [])"
  by (simp add: handleTimer_def Timer_start_def idle_def running_def calm_def twoIssues_select_A1)

lemma twoIssues_select_A1_B2: "selectedKey (check (check twoIssues ''A-1'') ''B-2'') = ''B-2''"
  by (simp add: check_def twoIssues_items uncheckAll_def newItem_def issue_def)

lemma Round_Second_120: "Round (120 * Second) Second = 120 * Second"
  by (simp add: Round_def Second_def rem_def quo_def lessThanHalf_def uint64_def wrap64_def)

lemma Round_Minute_120: "Round (120 * Second) Minute = 2 * Minute"
  by (simp add: Round_def Minute_def Second_def rem_def quo_def lessThanHalf_def uint64_def wrap64_def)

lemma MinutesInt_2: "MinutesInt (2 * Minute) = 2"
  by (simp add: MinutesInt_def quo_def Minute_value)

lemma Itoa_2: "Itoa 2 = ''2''"
  by (simp add: Itoa_def natDigits.simps digitChar_def)

lemma Itoa_120s: "Itoa (120 * Second) = ''120000000000''"
  by (simp add: Itoa_def Second_def natDigits.simps digitChar_def)

lemma Since_120: "Since (120 * Second) 0 = 120 * Second"
  by (simp add: Since_def Second_def minDuration_def maxDuration_def)

lemma addWorkLog_B2_120:
  "addWorkLog sampleLib (calm (120 * Second)) ''B-2'' 0 (120 * Second) =
     (None,
      [Dialog ''Worklog message for B-2 #120000000000ns'' ''Worklog'' '' '',
       LogPrint ''Adding worklog for  B-2 , message:   '',
       Exec [''jira'', ''login'', ''-u'', ''dev''],
       Exec [''jira'', ''worklog'', ''add'', ''--noedit'', ''--template'', ''debug'',
             ''-S'', ''0'', ''-T'', ''2m'', ''B-2'']])"
  by (simp add: addWorkLog_def calm_def sampleLib_def Round_Second_120 Round_Minute_120 MinutesInt_2
      Itoa_2 Itoa_120s Itoa_0 loginCmd_def worklogCmd_def Let_def)

text \<open>
  C1, as the code has it. \<^verbatim>\<open>Timer\<close> keeps no issue key; \<^verbatim>\<open>handleTimer\<close> passes
  \<^verbatim>\<open>menu.selectedKey\<close>, read when the session is stopped, to \<^verbatim>\<open>addWorkLog\<close>. A session is
  a timer click in the idle state with an issue selected, then any actions other than
  timer clicks, then the timer click that stops it. Every work-log submission of the
  session names the issue selected when the session is stopped. When no issue was
  clicked in between, that is the issue selected when the session started.
\<close>

theorem stop_submits_current_selection:
  assumes "\<not> timerStarted app" and "selectedKey (menu app) \<noteq> ''''"
    and "\<forall>a \<in> set mid. fst a \<noteq> TimerClicked"
    and "\<forall>a \<in> set quiet. fst a \<noteq> TimerClicked \<and> (\<forall>k. fst a \<noteq> IssueClicked k)"
  shows "(\<forall>e \<in> set (snd (run L app ((TimerClicked, w1) # mid @ [(TimerClicked, w2)]))).
            isSubmit e \<longrightarrow> submitKey e = selectedKey (menu (fst (run L app ((TimerClicked, w1) # mid))))) \<and>
         (\<forall>e \<in> set (snd (run L app ((TimerClicked, w1) # quiet @ [(TimerClicked, w2)]))).
            isSubmit e \<longrightarrow> submitKey e = selectedKey (menu app))"
proof -
  let ?started = "fst (step L app (TimerClicked, w1))"
  have start: "handleTimer L w1 app =
      (app\<lparr>timerItemTitle := ''Stop Timer'', timerStarted := True, timer := \<lparr>startTime = now w1\<rparr>\<rparr>, [])"
    using assms(1,2) by (simp add: handleTimer_start)
  have sel: "selectedKey (menu ?started) = selectedKey (menu app)"
    by (simp add: handleTimer_menu)
  have session: "\<forall>e \<in> set (snd (run L app ((TimerClicked, w1) # as @ [(TimerClicked, w2)]))).
      isSubmit e \<longrightarrow> submitKey e = selectedKey (menu (fst (run L app ((TimerClicked, w1) # as))))"
    if other: "\<forall>a \<in> set as. fst a \<noteq> TimerClicked" for as
  proof -
    let ?before = "fst (run L ?started as)"
    have r: "timerStarted ?before"
      using run_other_timer [OF other, of L ?started] by (simp add: start)
    have n: "\<not> list_ex isSubmit (snd (run L ?started as))"
      using other by (rule run_other_no_submit)
    have effects: "snd (run L app ((TimerClicked, w1) # as @ [(TimerClicked, w2)])) =
        snd (run L ?started as) @ snd (handleTimer L w2 ?before)"
      by (simp add: run_Cons run_append start split_def Let_def del: run.simps)
        (simp add: split_def Let_def)
    have state: "fst (run L app ((TimerClicked, w1) # as)) = ?before"
      by (simp add: split_def Let_def)
    show ?thesis
      unfolding effects state
      using n handleTimer_stop_submitKey [OF r, of _ L w2]
      by (auto simp: list_ex_iff)
  qed
  have quiet_sel: "selectedKey (menu (fst (run L app ((TimerClicked, w1) # quiet)))) = selectedKey (menu app)"
  proof -
    have "\<forall>a \<in> set quiet. \<forall>k. fst a \<noteq> IssueClicked k" using assms(4) by blast
    then have "selectedKey (menu (fst (run L ?started quiet))) = selectedKey (menu ?started)"
      by (rule run_no_click_selectedKey)
    then show ?thesis by (simp add: split_def Let_def handleTimer_menu)
  qed
  have q: "\<forall>a \<in> set quiet. fst a \<noteq> TimerClicked" using assms(4) by blast
  from session [OF assms(3)] session [OF q] quiet_sel show ?thesis by simp
qed

theorem stop_submits_current_selection_witness:
  "\<not> timerStarted (idle (check twoIssues ''A-1'')) \<and>
   selectedKey (menu (idle (check twoIssues ''A-1''))) = ''A-1'' \<and>
   list_all (\<lambda>e. isSubmit e \<longrightarrow> submitKey e = ''B-2'')
     (snd (run sampleLib (idle (check twoIssues ''A-1''))
        ((TimerClicked, calm 0) # [(IssueClicked ''B-2'', calm (60 * Second))] @
         [(TimerClicked, calm (120 * Second))]))) \<and>
   list_all (\<lambda>e. isSubmit e \<longrightarrow> submitKey e = ''A-1'')
     (snd (run sampleLib (idle (check twoIssues ''A-1''))
        ((TimerClicked, calm 0) # [(RefreshClicked, calm (60 * Second))] @
         [(TimerClicked, calm (120 * Second))])))"
proof -
  let ?app = "idle (check twoIssues ''A-1'')"
  have h1: "\<not> timerStarted ?app" by (simp add: idle_def)
  have s: "selectedKey (menu ?app) = ''A-1''" by (simp add: idle_def twoIssues_select_A1)
  then have h2: "selectedKey (menu ?app) \<noteq> ''''" by simp
  have h3: "\<forall>a \<in> set [(IssueClicked ''B-2'', calm (60 * Second))]. fst a \<noteq> TimerClicked" by simp
  have h4: "\<forall>a \<in> set [(RefreshClicked, calm (60 * Second))].
      fst a \<noteq> TimerClicked \<and> (\<forall>k. fst a \<noteq> IssueClicked k)" by simp
  have b: "selectedKey (menu (fst (run sampleLib ?app
      ((TimerClicked, calm 0) # [(IssueClicked ''B-2'', calm (60 * Second))])))) = ''B-2''"
    by (simp add: split_def Let_def start_A1) (simp add: running_def twoIssues_select_A1_B2)
  from stop_submits_current_selection [OF h1 h2 h3 h4, of sampleLib "calm 0" "calm (120 * Second)"]
  show ?thesis
    unfolding b s list_all_iff using h1 s by blast
qed

text \<open>
  A session started with A-1 selected, a click on B-2 a minute later, the session stopped
  after two minutes: the one work log submitted is for B-2.
\<close>

theorem selection_change_counterexample:
  "selectedKey (menu (idle (check twoIssues ''A-1''))) = ''A-1'' \<and>
   filter isSubmit (snd (run sampleLib (idle (check twoIssues ''A-1''))
     [(TimerClicked, calm 0), (IssueClicked ''B-2'', calm (60 * Second)),
      (TimerClicked, calm (120 * Second))])) =
     [Exec [''jira'', ''worklog'', ''add'', ''--noedit'', ''--template'', ''debug'',
            ''-S'', ''0'', ''-T'', ''2m'', ''B-2'']]"
proof -
  let ?clicked = "running (check (check twoIssues ''A-1'') ''B-2'') 0"
  have r: "timerStarted ?clicked" by (simp add: running_def)
  have stop: "snd (handleTimer sampleLib (calm (120 * Second)) ?clicked) =
      [SetTitle '''', Println ''120000000000ns'',
       Dialog ''Worklog message for B-2 #120000000000ns'' ''Worklog'' '' '',
       LogPrint ''Adding worklog for  B-2 , message:   '',
       Exec [''jira'', ''login'', ''-u'', ''dev''],
       Exec [''jira'', ''worklog'', ''add'', ''--noedit'', ''--template'', ''debug'',
             ''-S'', ''0'', ''-T'', ''2m'', ''B-2'']]"
  proof -
    have s: "selectedKey (menu ?clicked) = ''B-2''" by (simp add: running_def twoIssues_select_A1_B2)
    have t: "startTime (timer ?clicked) = 0" by (simp add: running_def)
    have n: "now (calm (120 * Second)) = 120 * Second" by (simp add: calm_def)
    have d: "durationString sampleLib (120 * Second) = ''120000000000ns''"
      by (simp add: sampleLib_def Itoa_120s)
    show ?thesis
      by (simp add: handleTimer_running [OF r] s t n Since_120 addWorkLog_B2_120 d)
  qed
  have click: "(running (check twoIssues ''A-1'') 0)\<lparr>menu := check (menu (running (check twoIssues ''A-1'') 0)) ''B-2''\<rparr> = ?clicked"
    by (simp add: running_def)
  show ?thesis
    by (simp add: split_def Let_def start_A1 click stop) (simp add: idle_def twoIssues_select_A1)
qed

subsection \<open>Start-up\<close>

lemma addItem_no_alert: "\<not> list_ex isAlert (snd (addItem m i))"
  by (simp add: addItem_def)

lemma addItems_no_alert: "\<not> list_ex isAlert (snd (addItems m is))"
  by (induction "is" arbitrary: m) (simp_all add: split_def Let_def addItem_no_alert)

lemma getIssues_no_alert: "\<not> list_ex isAlert (snd (getIssues L w))"
  by (simp add: getIssues_def split: option.splits sum.splits)

lemma refresh_no_alert: "\<not> list_ex isAlert (snd (refresh L w m))"
  by (simp add: refresh_def split_def Let_def getIssues_no_alert addItems_no_alert split: option.splits)

lemma refresh_logs: "snd (fst (getIssues L w)) = Some err \<Longrightarrow> LogPrint err \<in> set (snd (refresh L w m))"
  by (simp add: refresh_def split_def Let_def)

lemma refresh_login_fails:
  "loginErr w = Some err \<Longrightarrow>
   refresh L w m = (m, [Exec (loginCmd w), LogPrint (Wrap err ''could not login'')])"
  by (simp add: refresh_def getIssues_def)

lemma refresh_list_fails:
  "loginErr w = None \<Longrightarrow> listResult w = Inl err \<Longrightarrow>
   refresh L w m =
     (m, [Exec (loginCmd w), Exec listCmd, LogPrint (Wrap err ''could not list assigned issues'')])"
  by (simp add: refresh_def getIssues_def)

lemma onReady_unfold:
  "onReady L w =
     (\<lparr>menu = fst (NewJiraMenu L w), timerStarted = False, timer = \<lparr>startTime = 0\<rparr>,
       timerItemTitle = ''Start Timer''\<rparr>,
      [SetIcon, SetTitle '''', SetTooltip ''Jira Time Tracker'',
       AddMenuItem ''Quit'' ''Quit the whole app'',
       AddMenuItem ''Start Timer'' ''Start Timer'',
       AddMenuItem ''Add Issue'' ''Add Issue'',
       AddMenuItem ''Refresh Assigned'' ''Refresh Assigned'',
       AddSeparator] @ snd (NewJiraMenu L w))"
  by (simp add: onReady_def split_def Let_def)

text \<open>
  C10, as the code has it. \<^verbatim>\<open>NewJiraMenu\<close> runs \<^verbatim>\<open>refresh\<close> once on the empty menu, and
  the handlers start on the menu it returns. A failed fetch is written to the log and
  raises no alert, at start-up as in every \<^verbatim>\<open>refresh\<close>. When the login or the listing
  fails, the registry starts empty.
\<close>

theorem startup_fetch_failure_is_logged:
  assumes "loginErr w = Some err" and "loginErr v = None" and "listResult v = Inl err'"
    and "snd (fst (getIssues L u)) = Some e"
  shows "NewJiraMenu L w = (emptyMenu, [Exec (loginCmd w), LogPrint (Wrap err ''could not login'')]) \<and>
         NewJiraMenu L v =
           (emptyMenu, [Exec (loginCmd v), Exec listCmd, LogPrint (Wrap err' ''could not list assigned issues'')]) \<and>
         LogPrint e \<in> set (snd (NewJiraMenu L u)) \<and>
         \<not> list_ex isAlert (snd (NewJiraMenu L u)) \<and>
         \<not> list_ex isAlert (snd (onReady L u)) \<and>
         menu (fst (onReady L u)) = fst (NewJiraMenu L u)"
  using assms
  by (simp add: NewJiraMenu_def refresh_login_fails refresh_list_fails refresh_logs refresh_no_alert
      onReady_unfold split_def Let_def)

theorem startup_fetch_failure_is_logged_witness:
  "loginErr (loginFails 0) = Some ''exit status 1'' \<and>
   loginErr (listFails 0) = None \<and> listResult (listFails 0) = Inl ''exit status 1'' \<and>
   snd (fst (getIssues sampleLib (loginFails 0))) = Some ''could not login: exit status 1'' \<and>
   NewJiraMenu sampleLib (loginFails 0) =
     (emptyMenu, [Exec [''jira'', ''login'', ''-u'', ''dev''], LogPrint ''could not login: exit status 1'']) \<and>
   snd (NewJiraMenu sampleLib (listFails 0)) =
     [Exec [''jira'', ''login'', ''-u'', ''dev''], Exec listCmd,
      LogPrint ''could not list assigned issues: exit status 1''] \<and>
   \<not> list_ex isAlert (snd (onReady sampleLib (loginFails 0)))"
proof -
  have h1: "loginErr (loginFails 0) = Some ''exit status 1''" by (simp add: loginFails_def)
  have h2: "loginErr (listFails 0) = None" by (simp add: listFails_def calm_def)
  have h3: "listResult (listFails 0) = Inl ''exit status 1''" by (simp add: listFails_def)
  have h4: "snd (fst (getIssues sampleLib (loginFails 0))) = Some ''could not login: exit status 1''"
    by (simp add: getIssues_def loginFails_def Wrap_def)
  have c1: "loginCmd (loginFails 0) = [''jira'', ''login'', ''-u'', ''dev'']"
    by (simp add: loginCmd_def loginFails_def calm_def)
  have c2: "loginCmd (listFails 0) = [''jira'', ''login'', ''-u'', ''dev'']"
    by (simp add: loginCmd_def listFails_def calm_def)
  from startup_fetch_failure_is_logged [OF h1 h2 h3 h4] h1 h2 h3 h4
  show ?thesis by (simp add: c1 c2 Wrap_def)
qed

text \<open>
  \<^verbatim>\<open>refresh\<close> does not return after logging the error, and \<^verbatim>\<open>getIssues\<close> returns
  \<^verbatim>\<open>listOut.Issues\<close> together with the error of \<^verbatim>\<open>json.Unmarshal\<close>. On a listing whose
  summary is a number, decoding fills the key, skips the summary and reports a type
  error: the fetch fails, the failure is logged, and the registry starts with A-1.
\<close>

theorem startup_decode_failure_counterexample:
  "snd (fst (getIssues typeErrorLib (listsBadSummary 0))) =
     Some ''json: cannot unmarshal number into Go struct field .issues.fields.summary of type string'' \<and>
   isItemPresent (fst (NewJiraMenu typeErrorLib (listsBadSummary 0))) ''A-1'' \<and>
   snd (NewJiraMenu typeErrorLib (listsBadSummary 0)) =
     [Exec [''jira'', ''login'', ''-u'', ''dev''], Exec listCmd,
      LogPrint ''json: cannot unmarshal number into Go struct field .issues.fields.summary of type string'',
      AddMenuItem ''A-1 - '' '''']"
  by (simp add: NewJiraMenu_def refresh_def getIssues_def typeErrorLib_def listsBadSummary_def calm_def
      sampleLib_def emptyMenu_def addItem_def isItemPresent_def issue_def loginCmd_def)

subsection \<open>Failing collaborators\<close>

lemma addWorkLog_login_fails:
  "dialogResult w = Inr resp \<Longrightarrow> Clicked resp = ''OK'' \<Longrightarrow> loginErr w = Some err \<Longrightarrow>
   fst (addWorkLog L w key started d) = Some (Wrap err ''could not login!'')"
  by (simp add: addWorkLog_def Let_def)

lemma addWorkLog_submit_fails:
  "dialogResult w = Inr resp \<Longrightarrow> Clicked resp = ''OK'' \<Longrightarrow> loginErr w = None \<Longrightarrow>
   MinutesInt (Round d Minute) \<noteq> 0 \<Longrightarrow> worklogResult w = (out, Some err) \<Longrightarrow>
   fst (addWorkLog L w key started d) = Some (Wrap err (''could not add worklog: '' @ out))"
  by (simp add: addWorkLog_def Let_def Itoa_zero)

lemma handleTimer_alerts:
  "timerStarted app \<Longrightarrow>
   fst (addWorkLog L w (selectedKey (menu app)) (startTime (timer app))
          (Since (now w) (startTime (timer app)))) = Some e \<Longrightarrow>
   Alert e \<in> set (snd (handleTimer L w app)) \<and>
   fst (handleTimer L w app) = app\<lparr>timerStarted := False, timerItemTitle := ''Start Timer''\<rparr>"
  by (simp add: handleTimer_running)

lemma addIssue_view_fails:
  "dialogResult w = Inr resp \<Longrightarrow> Clicked resp = ''OK'' \<Longrightarrow> \<not> isItemPresent m (Text resp) \<Longrightarrow>
   loginErr w = None \<Longrightarrow> viewResult w = Inl err \<Longrightarrow>
   addIssue L w m =
     (m, [Dialog ''Issue Key?'' ''Issue Key'' ''MY-462'', Exec (loginCmd w), Exec (viewCmd (Text resp)),
          Alert ''Could not find that issue!''])"
  by (simp add: addIssue_def Let_def)

text \<open>
  C8, as the code has it. No handler has a branch that ends the program: each action
  returns the next state. When a running timer is stopped and the login or the
  submission fails, the error is shown in an alert and the session is idle again. In
  every state, running or idle: when an issue is added and \<^verbatim>\<open>jira view\<close> fails, the alert
  "Could not find that issue!" is shown and the state is unchanged; when a refresh
  fails, the error is written to the log and no alert is shown.
\<close>

theorem collaborator_failures_are_reported:
  assumes "timerStarted app"
    and "dialogResult wl = Inr rl" and "Clicked rl = ''OK''" and "loginErr wl = Some el"
    and "dialogResult ws = Inr rs" and "Clicked rs = ''OK''" and "loginErr ws = None"
    and "MinutesInt (Round (Since (now ws) (startTime (timer app))) Minute) \<noteq> 0"
    and "worklogResult ws = (out, Some es)"
    and "dialogResult wv = Inr rv" and "Clicked rv = ''OK''" and "\<not> isItemPresent (menu adding) (Text rv)"
    and "loginErr wv = None" and "viewResult wv = Inl ev"
    and "snd (fst (getIssues L wr)) = Some er"
  shows "Alert (Wrap el ''could not login!'') \<in> set (snd (step L app (TimerClicked, wl))) \<and>
         fst (step L app (TimerClicked, wl)) = app\<lparr>timerStarted := False, timerItemTitle := ''Start Timer''\<rparr> \<and>
         Alert (Wrap es (''could not add worklog: '' @ out)) \<in> set (snd (step L app (TimerClicked, ws))) \<and>
         fst (step L app (TimerClicked, ws)) = app\<lparr>timerStarted := False, timerItemTitle := ''Start Timer''\<rparr> \<and>
         step L adding (AddIssueClicked, wv) =
           (adding, [Dialog ''Issue Key?'' ''Issue Key'' ''MY-462'', Exec (loginCmd wv),
                     Exec (viewCmd (Text rv)), Alert ''Could not find that issue!'']) \<and>
         LogPrint er \<in> set (snd (step L refreshing (RefreshClicked, wr))) \<and>
         \<not> list_ex isAlert (snd (step L refreshing (RefreshClicked, wr)))"
proof -
  have l: "fst (addWorkLog L wl (selectedKey (menu app)) (startTime (timer app))
      (Since (now wl) (startTime (timer app)))) = Some (Wrap el ''could not login!'')"
    using assms(2-4) by (rule addWorkLog_login_fails)
  have s: "fst (addWorkLog L ws (selectedKey (menu app)) (startTime (timer app))
      (Since (now ws) (startTime (timer app)))) = Some (Wrap es (''could not add worklog: '' @ out))"
    using assms(5-9) by (rule addWorkLog_submit_fails)
  have v: "step L adding (AddIssueClicked, wv) =
      (adding, [Dialog ''Issue Key?'' ''Issue Key'' ''MY-462'', Exec (loginCmd wv),
                Exec (viewCmd (Text rv)), Alert ''Could not find that issue!''])"
    by (simp add: addIssue_view_fails [OF assms(10-14)])
  have r: "LogPrint er \<in> set (snd (step L refreshing (RefreshClicked, wr))) \<and>
      \<not> list_ex isAlert (snd (step L refreshing (RefreshClicked, wr)))"
    using refresh_logs [OF assms(15), of "menu refreshing"] refresh_no_alert [of L wr "menu refreshing"]
    by (simp add: split_def Let_def)
  from handleTimer_alerts [OF assms(1) l] handleTimer_alerts [OF assms(1) s] v r
  show ?thesis by simp
qed

theorem collaborator_failures_are_reported_witness:
  "timerStarted (running (check twoIssues ''A-1'') 0) \<and>
   \<not> timerStarted (idle twoIssues) \<and>
   loginErr (loginFails (300 * Second)) = Some ''exit status 1'' \<and>
   worklogResult (submitFails (300 * Second)) = (''404 Not Found'', Some ''exit status 1'') \<and>
   MinutesInt (Round (Since (now (submitFails (300 * Second))) 0) Minute) \<noteq> 0 \<and>
   viewResult (viewFails 0) = Inl ''exit status 1'' \<and>
   \<not> isItemPresent twoIssues ''PROJ-9'' \<and>
   snd (fst (getIssues sampleLib (loginFails 0))) = Some ''could not login: exit status 1'' \<and>
   Alert ''could not login!: exit status 1''
     \<in> set (snd (step sampleLib (running (check twoIssues ''A-1'') 0) (TimerClicked, loginFails (300 * Second)))) \<and>
   Alert ''could not add worklog: 404 Not Found: exit status 1''
     \<in> set (snd (step sampleLib (running (check twoIssues ''A-1'') 0) (TimerClicked, submitFails (300 * Second)))) \<and>
   step sampleLib (idle twoIssues) (AddIssueClicked, viewFails 0) =
     (idle twoIssues,
      [Dialog ''Issue Key?'' ''Issue Key'' ''MY-462'', Exec [''jira'', ''login'', ''-u'', ''dev''],
       Exec [''jira'', ''view'', ''PROJ-9'', ''--template'', ''debug''], Alert ''Could not find that issue!'']) \<and>
   LogPrint ''could not login: exit status 1''
     \<in> set (snd (step sampleLib (idle twoIssues) (RefreshClicked, loginFails 0))) \<and>
   \<not> list_ex isAlert (snd (step sampleLib (idle twoIssues) (RefreshClicked, loginFails 0)))"
proof -
  let ?app = "running (check twoIssues ''A-1'') 0"
  let ?ok = "\<lparr>Clicked = ''OK'', GaveUp = False, Text = '' ''\<rparr>"
  let ?key = "\<lparr>Clicked = ''OK'', GaveUp = False, Text = ''PROJ-9''\<rparr>"
  have h1: "timerStarted ?app" by (simp add: running_def)
  have i: "\<not> timerStarted (idle twoIssues)" by (simp add: idle_def)
  have h2: "dialogResult (loginFails (300 * Second)) = Inr ?ok" by (simp add: loginFails_def calm_def)
  have h3: "Clicked ?ok = ''OK''" by simp
  have h4: "loginErr (loginFails (300 * Second)) = Some ''exit status 1''" by (simp add: loginFails_def)
  have h5: "dialogResult (submitFails (300 * Second)) = Inr ?ok" by (simp add: submitFails_def calm_def)
  have h7: "loginErr (submitFails (300 * Second)) = None" by (simp add: submitFails_def calm_def)
  have r: "Round (300 * Second) Minute = 300 * Second"
    by (simp add: Round_def Minute_def Second_def rem_def quo_def lessThanHalf_def uint64_def wrap64_def)
  have t: "startTime (timer ?app) = 0" by (simp add: running_def)
  have n: "Since (now (submitFails (300 * Second))) 0 = 300 * Second"
    by (simp add: submitFails_def calm_def Since_def Second_def minDuration_def maxDuration_def)
  have m: "MinutesInt (300 * Second) = 5"
    by (simp add: MinutesInt_def quo_def Minute_def Second_def)
  have h8: "MinutesInt (Round (Since (now (submitFails (300 * Second))) (startTime (timer ?app))) Minute) \<noteq> 0"
    by (simp add: t n r m)
  have h9: "worklogResult (submitFails (300 * Second)) = (''404 Not Found'', Some ''exit status 1'')"
    by (simp add: submitFails_def)
  have h10: "dialogResult (viewFails 0) = Inr ?key" by (simp add: viewFails_def)
  have h11: "Clicked ?key = ''OK''" by simp
  have p: "\<not> isItemPresent twoIssues ''PROJ-9''"
    by (simp add: twoIssues_items isItemPresent_def)
  then have h12: "\<not> isItemPresent (menu (idle twoIssues)) (Text ?key)" by (simp add: idle_def)
  have h13: "loginErr (viewFails 0) = None" by (simp add: viewFails_def calm_def)
  have h14: "viewResult (viewFails 0) = Inl ''exit status 1''" by (simp add: viewFails_def)
  have h15: "snd (fst (getIssues sampleLib (loginFails 0))) = Some ''could not login: exit status 1''"
    by (simp add: getIssues_def loginFails_def Wrap_def)
  have c: "loginCmd (viewFails 0) = [''jira'', ''login'', ''-u'', ''dev'']"
    by (simp add: loginCmd_def viewFails_def calm_def)
  from collaborator_failures_are_reported [OF h1 h2 h3 h4 h5 h3 h7 h8 h9 h10 h11 h12 h13 h14 h15,
      of "idle twoIssues"]
    h1 i h4 h9 h8 h14 p h15
  show ?thesis by (simp add: t c Wrap_def viewCmd_def)
qed

text \<open>
  A refresh whose login fails: the login is run, the error is logged, and that is all.
  The user sees nothing.
\<close>

theorem refresh_failure_counterexample:
  "step sampleLib (idle twoIssues) (RefreshClicked, loginFails 0) =
     (idle twoIssues, [Exec [''jira'', ''login'', ''-u'', ''dev''], LogPrint ''could not login: exit status 1''])"
  by (simp add: refresh_def getIssues_def loginFails_def calm_def loginCmd_def Wrap_def idle_def)

end
